theory Spec2Isabelle
  imports Main
begin

section \<open>cmd/doppler-api/main.go: values shared with the Go libraries\<close>

text \<open>
  The file has three functions: \<open>main\<close>, \<open>kafkaParse\<close> and \<open>createConsumer\<close>.
  Everything else it touches (net/url, sarama, the Couchbase and Influx clients, net/http,
  os/signal, context) lives outside the repository's source tree, so each such call is a
  parameter of the model: a function or a field of a record that says what the call
  returned. Strings are Go strings, that is byte sequences.
\<close>

text \<open>A Go \<open>error\<close> value that is not nil, carrying its message.\<close>

datatype error = Error string

text \<open>
  The fields of \<open>url.URL\<close> that hold strings. \<open>kafkaParse\<close> reads \<open>Host\<close> and
  \<open>Path\<close> only.
\<close>

record URL =
  Scheme :: string
  Opaque :: string
  Host :: string
  Path :: string
  RawQuery :: string
  Fragment :: string

text \<open>
  \<open>url.Parse\<close>: either an error or a URL. \<open>Inl\<close> is the case \<open>err != nil\<close>.
\<close>

type_synonym url_parse = "string \<Rightarrow> error + URL"

text \<open>
  The outcome of running a Go function that may hit a run-time panic instead of
  returning.
\<close>

datatype 'a run = Panic | Return 'a

text \<open>
  The Go slice expression \<open>s[lo:]\<close> on a string: a run-time panic (slice bounds out of
  range) when \<open>lo > len(s)\<close>, the bytes from index \<open>lo\<close> on otherwise.
\<close>

definition slice_from :: "string \<Rightarrow> nat \<Rightarrow> string run" where
  "slice_from s lo = (if lo \<le> length s then Return (drop lo s) else Panic)"

section \<open>kafkaParse\<close>

text \<open>
  \<open>func kafkaParse(conn string) (string, string, error)\<close>, lines 145 to 160. The result
  triple is (address, topic, err) with \<open>None\<close> for a nil error.
\<close>

definition kafkaParse :: "url_parse \<Rightarrow> string \<Rightarrow> (string \<times> string \<times> error option) run" where
  "kafkaParse parse conn =
     (case parse conn of
        Inl err \<Rightarrow> Return ('''', '''', Some err)
      | Inr u \<Rightarrow>
          if Host u = '''' then
            Return ('''', '''', Some (Error
              ''Kafka address is not specified, verify that your environment variables are correct''))
          else
            let address = Host u in
            if Path u = '''' \<or> Path u = ''/'' then
              Return ('''', '''', Some (Error
                ''Kafka topic is not specified, verify that your environment variables are correct''))
            else
              (case slice_from (Path u) 1 of
                 Panic \<Rightarrow> Panic
               | Return topic \<Rightarrow> Return (address, topic, None)))"

text \<open>
  What net/url answers on a handful of descriptors, for evaluating the functions on
  concrete inputs. A descriptor with an authority has the authority in \<open>Host\<close> and the
  rest, up to the query, in \<open>Path\<close>; the empty string parses to the empty URL. Every
  string outside the table stands for one that net/url rejects, such as one that starts
  with a colon and so has no protocol scheme.
\<close>

definition empty_URL :: URL where
  "empty_URL = \<lparr>Scheme = '''', Opaque = '''', Host = '''', Path = '''', RawQuery = '''',
     Fragment = ''''\<rparr>"

definition sample_parse :: url_parse where
  "sample_parse s =
     (if s = ''kafka://localhost:9092/influx-topic'' then
        Inr (empty_URL\<lparr>Scheme := ''kafka'', Host := ''localhost:9092'', Path := ''/influx-topic''\<rparr>)
      else if s = ''kafka://localhost:9092/'' then
        Inr (empty_URL\<lparr>Scheme := ''kafka'', Host := ''localhost:9092'', Path := ''/''\<rparr>)
      else if s = '''' then
        Inr empty_URL
      else
        Inl (Error ''missing protocol scheme''))"

text \<open>
  The shape net/url gives every URL it returns: a host is only ever set from an
  authority, and what follows an authority is empty or starts with a slash.
\<close>

definition rooted :: "URL \<Rightarrow> bool" where
  "rooted u = (Host u = '''' \<or> (case Path u of [] \<Rightarrow> True | c # cs \<Rightarrow> c = CHR ''/''))"

section \<open>createConsumer\<close>

text \<open>\<open>sarama.OffsetNewest\<close>, a constant of type int64.\<close>

definition OffsetNewest :: int where
  "OffsetNewest = - 1"

text \<open>
  A \<open>sarama.PartitionConsumer\<close>, identified by the topic, partition and offset it was
  created for, and the Couchbase connection, identified by its connection string.
\<close>

datatype partition_consumer = PartitionConsumer string int int

datatype couchbase = Couchbase string

datatype signal = Interrupt | SIGTERM

datatype handler = ConnectionManager | InfluxService

datatype goroutine =
    SignalListener
  | Consume "partition_consumer option"
  | ListenAndServe string

text \<open>
  The calls that leave the process, in the order the goroutine running \<open>main\<close> makes
  them. A call is recorded when it has returned; where the code looks at the result, the
  world below decides it. \<open>Go\<close> is a \<open>go\<close> statement, \<open>Done\<close> the receive from
  \<open>ctx.Done()\<close>, \<open>LogErr\<close> a log line that prints an error.
\<close>

datatype event =
    Log string
  | LogErr string error
  | ConnectToCB string
  | NewConfig
  | NewConsumer "string list"
  | ConsumePartition string int int
  | NewHTTPClient string string string
  | Notify "signal list"
  | WithCancel
  | Go goroutine
  | NewConnectionManager int int int int couchbase
  | NewInfluxService int
  | Handle string handler
  | Receive signal
  | Cancel
  | Done
  | WithTimeout int
  | Shutdown "error option"
  | BucketClose
  | ConsumerClose partition_consumer
  | ClientClose
  | SvrCancel

text \<open>
  What the outside answers. \<open>None\<close> is a nil error. \<open>interrupt\<close> is the signal that
  arrives on the \<open>quit\<close> channel, \<open>None\<close> when none ever does.
\<close>

record world =
  environ :: "string \<Rightarrow> string"
  parse_url :: url_parse
  connect_to_cb :: "string \<Rightarrow> error option"
  new_consumer :: "string list \<Rightarrow> error option"
  consume_partition :: "string \<Rightarrow> int \<Rightarrow> int \<Rightarrow> error option"
  new_http_client :: "string \<Rightarrow> string \<Rightarrow> string \<Rightarrow> error option"
  interrupt :: "signal option"
  shutdown :: "error option"

text \<open>
  \<open>func createConsumer(kafkaCon string, kafkaTopic string) (sarama.PartitionConsumer, error)\<close>,
  lines 164 to 183: the calls made and the pair returned. The consumer is \<open>None\<close> for the
  nil interface value, the error is \<open>None\<close> for nil.
\<close>

definition createConsumer ::
    "world \<Rightarrow> string \<Rightarrow> string \<Rightarrow> event list \<times> partition_consumer option \<times> error option" where
  "createConsumer w kafkaCon kafkaTopic =
     (let brokers = [kafkaCon] in
      case new_consumer w brokers of
        Some err \<Rightarrow> ([NewConfig, NewConsumer brokers], None, Some err)
      | None \<Rightarrow>
          (case consume_partition w kafkaTopic 0 OffsetNewest of
             Some err \<Rightarrow>
               ([NewConfig, NewConsumer brokers, ConsumePartition kafkaTopic 0 OffsetNewest],
                None, Some err)
           | None \<Rightarrow>
               ([NewConfig, NewConsumer brokers, ConsumePartition kafkaTopic 0 OffsetNewest],
                Some (PartitionConsumer kafkaTopic 0 OffsetNewest), None)))"

section \<open>main\<close>

text \<open>How a goroutine ends: it returns, it panics, or it waits on a channel for ever.\<close>

datatype exit = Returned | Panicked error | Blocked

definition addr :: string where
  "addr = '':8000''"

text \<open>\<open>time.Second\<close>, in nanoseconds as \<open>time.Duration\<close> counts.\<close>

definition Second :: int where
  "Second = 1000000000"

text \<open>
  The statement \<open>if err != nil { log.Println(msg, err) }\<close>, which \<open>main\<close> uses for the
  errors it does not treat as fatal (lines 34, 53 and 127).
\<close>

definition log_error :: "string \<Rightarrow> error option \<Rightarrow> event list" where
  "log_error msg err = (case err of Some e \<Rightarrow> [LogErr msg e] | None \<Rightarrow> [])"

text \<open>
  The goroutine of lines 84 to 89: it waits for a signal on \<open>quit\<close>, logs, and cancels
  the context. Nothing else in the file calls \<open>cancel\<close>.
\<close>

definition signal_listener :: "world \<Rightarrow> event list \<times> exit" where
  "signal_listener w =
     (case interrupt w of
        None \<Rightarrow> ([], Blocked)
      | Some s \<Rightarrow> ([Receive s, Log ''Interrupt Received'', Cancel], Returned))"

text \<open>
  The deferred function of lines 132 to 141, run when \<open>main\<close> returns. The bucket is
  the one \<open>ConnectToCB\<close> opened. \<open>consumer\<close> is an interface value; calling
  \<open>Close\<close> on the nil interface is a run-time panic, and then the statements after it
  do not run.
\<close>

definition close_services :: "partition_consumer option \<Rightarrow> event list \<times> exit" where
  "close_services consumer =
     (case consumer of
        None \<Rightarrow>
          ([BucketClose], Panicked (Error ''invalid memory address or nil pointer dereference''))
      | Some pc \<Rightarrow>
          ([BucketClose, ConsumerClose pc, ClientClose, Log ''Internal Services Closed'',
            SvrCancel, Log ''Service Closed''], Returned))"

text \<open>
  \<open>func main()\<close>, lines 26 to 142, as the goroutine that runs it: the calls it makes and
  how it ends. A \<open>go\<close> statement is the event \<open>Go\<close>; the receive \<open><-ctx.Done()\<close> of
  line 121 returns once the signal listener has cancelled the context, and waits for ever
  otherwise. The bodies of the goroutines that \<open>main\<close> starts run beside it and are not
  part of its own sequence of calls.
\<close>

definition main :: "world \<Rightarrow> event list \<times> exit" where
  "main w =
     (let cbEnv = environ w ''COUCHBASE_CONN'' in
      case kafkaParse (parse_url w) (environ w ''KAFKA_CONN'') of
        Panic \<Rightarrow> ([], Panicked (Error ''slice bounds out of range''))
      | Return (kafkaCon, kafkaTopic, err) \<Rightarrow>
      let t1 = log_error ''kafka parse error: '' err;
          influxCon = environ w ''CONNECTOR_CONNECT_INFLUX_URL'';
          influxUser = environ w ''CONNECTOR_CONNECT_INFLUX_USERNAME'';
          influxPassword = environ w ''CONNECTOR_CONNECT_INFLUX_PASSWORD'';
          cbConn = Couchbase cbEnv;
          t2 = t1 @ [ConnectToCB cbEnv]
      in
      case connect_to_cb w cbEnv of
        Some (Error m) \<Rightarrow> (t2, Panicked (Error (''error connecting to couchbase: '' @ m)))
      | None \<Rightarrow>
      let (calls, consumer, err) = createConsumer w kafkaCon kafkaTopic;
          t3 = t2 @ [Log ''Connected to Couchbase''] @ calls @ log_error '''' err
                 @ [Log ''Connected to Kafka'', NewHTTPClient influxCon influxUser influxPassword]
      in
      case new_http_client w influxCon influxUser influxPassword of
        Some (Error m) \<Rightarrow> (t3, Panicked (Error (''error connecting to influx: '' @ m)))
      | None \<Rightarrow>
      let maxBatchSize = 100;
          minBatchSize = 1;
          batchInterval = 2000;
          truncateSize = 1;
          t4 = t3 @
            [Log ''Connected to InfluxDB'',
             Notify [Interrupt, SIGTERM],
             WithCancel,
             Go SignalListener,
             NewConnectionManager maxBatchSize minBatchSize batchInterval truncateSize cbConn,
             Log ''Websockets Available'',
             NewInfluxService truncateSize,
             Log ''InfluxDB Available'',
             Handle ''/receive/ws'' ConnectionManager,
             Handle ''/receive/ajax'' InfluxService,
             Go (Consume consumer),
             Log ''Consuming Started'',
             Go (ListenAndServe addr)]
      in
      if Cancel \<notin> set (fst (signal_listener w)) then (t4, Blocked)
      else
      let t5 = t4 @ [Done, WithTimeout (5 * Second), Shutdown (shutdown w)]
                 @ log_error ''HTTP server Shutdown: '' (shutdown w)
                 @ [Log ''Server Shutdown''];
          (closing, ending) = close_services consumer
      in (t5 @ closing, ending))"

section \<open>Reading a run\<close>

text \<open>Classes of calls that the properties below speak about.\<close>

text \<open>Registering an HTTP handler, starting the consumer, starting the HTTP server.\<close>

fun is_serving :: "event \<Rightarrow> bool" where
  "is_serving (Handle pattern h) = True"
| "is_serving (Go (Consume c)) = True"
| "is_serving (Go (ListenAndServe a)) = True"
| "is_serving e = False"

fun is_connect_cb :: "event \<Rightarrow> bool" where
  "is_connect_cb (ConnectToCB s) = True"
| "is_connect_cb e = False"

fun is_consume_partition :: "event \<Rightarrow> bool" where
  "is_consume_partition (ConsumePartition topic part off) = True"
| "is_consume_partition e = False"

fun is_new_connection_manager :: "event \<Rightarrow> bool" where
  "is_new_connection_manager (NewConnectionManager a b c d cb) = True"
| "is_new_connection_manager e = False"

fun is_shutdown :: "event \<Rightarrow> bool" where
  "is_shutdown (Shutdown r) = True"
| "is_shutdown e = False"

text \<open>Closing the Couchbase bucket, the Kafka partition consumer, the Influx client.\<close>

fun is_close :: "event \<Rightarrow> bool" where
  "is_close BucketClose = True"
| "is_close (ConsumerClose pc) = True"
| "is_close ClientClose = True"
| "is_close e = False"

text \<open>
  \<open>all_after p q es\<close>: reading \<open>es\<close> from the front, no call of class \<open>q\<close> comes
  before or at the first call of class \<open>p\<close>.
\<close>

fun all_after :: "(event \<Rightarrow> bool) \<Rightarrow> (event \<Rightarrow> bool) \<Rightarrow> event list \<Rightarrow> bool" where
  "all_after p q [] = True"
| "all_after p q (e # es) = (if q e then False else if p e then True else all_after p q es)"

text \<open>Creating the context that bounds the shutdown, and cancelling that context.\<close>

fun is_with_timeout :: "event \<Rightarrow> bool" where
  "is_with_timeout (WithTimeout d) = True"
| "is_with_timeout e = False"

fun is_svr_cancel :: "event \<Rightarrow> bool" where
  "is_svr_cancel SvrCancel = True"
| "is_svr_cancel e = False"

text \<open>
  \<open>none_before p q es\<close>: reading \<open>es\<close> from the front, no call of class \<open>q\<close> comes
  after a call of class \<open>p\<close>.
\<close>

fun none_before :: "(event \<Rightarrow> bool) \<Rightarrow> (event \<Rightarrow> bool) \<Rightarrow> event list \<Rightarrow> bool" where
  "none_before p q [] = True"
| "none_before p q (e # es) =
     (if p e then list_all (\<lambda>x. \<not> q x) es else none_before p q es)"

section \<open>Concrete worlds\<close>

text \<open>
  Every variable set and every backend reachable; a SIGTERM arrives and the server shuts
  down in time.
\<close>

definition world_up :: world where
  "world_up =
     \<lparr>environ = (\<lambda>k.
         if k = ''KAFKA_CONN'' then ''kafka://localhost:9092/influx-topic''
         else if k = ''COUCHBASE_CONN'' then ''couchbase://localhost/doppler''
         else if k = ''CONNECTOR_CONNECT_INFLUX_URL'' then ''http://localhost:8086''
         else ''''),
       parse_url = sample_parse,
       connect_to_cb = (\<lambda>conn. None),
       new_consumer = (\<lambda>brokers. None),
       consume_partition = (\<lambda>topic part off. None),
       new_http_client = (\<lambda>a u p. None),
       interrupt = Some SIGTERM,
       shutdown = None\<rparr>"

text \<open>
  The same, with \<open>KAFKA_CONN\<close> not set (\<open>os.Getenv\<close> gives the empty string), so that
  there is no broker to reach, and with no signal arriving.
\<close>

definition world_kafka_unset :: world where
  "world_kafka_unset =
     \<lparr>environ = (\<lambda>k.
         if k = ''COUCHBASE_CONN'' then ''couchbase://localhost/doppler''
         else if k = ''CONNECTOR_CONNECT_INFLUX_URL'' then ''http://localhost:8086''
         else ''''),
       parse_url = sample_parse,
       connect_to_cb = (\<lambda>conn. None),
       new_consumer = (\<lambda>brokers. Some (Error ''kafka: client has run out of available brokers'')),
       consume_partition = (\<lambda>topic part off. None),
       new_http_client = (\<lambda>a u p. None),
       interrupt = None,
       shutdown = None\<rparr>"

text \<open>The second world with a SIGTERM arriving.\<close>

definition world_kafka_unset_sigterm :: world where
  "world_kafka_unset_sigterm = world_kafka_unset\<lparr>interrupt := Some SIGTERM\<rparr>"

text \<open>The first world with Couchbase unreachable.\<close>

definition world_cb_down :: world where
  "world_cb_down = world_up\<lparr>connect_to_cb := (\<lambda>conn. Some (Error ''timeout''))\<rparr>"

section \<open>Helper facts\<close>

subsection \<open>kafkaParse\<close>

lemma slice_from_1_nonempty: "s \<noteq> [] \<Longrightarrow> slice_from s (Suc 0) = Return (tl s)"
  by (cases s) (simp_all add: slice_from_def)

text \<open>The function with the slice evaluated: the guard before it leaves no empty path.\<close>

lemma kafkaParse_cases:
  "kafkaParse parse conn =
     (case parse conn of
        Inl err \<Rightarrow> Return ('''', '''', Some err)
      | Inr u \<Rightarrow>
          if Host u = '''' then
            Return ('''', '''', Some (Error
              ''Kafka address is not specified, verify that your environment variables are correct''))
          else if Path u = '''' \<or> Path u = ''/'' then
            Return ('''', '''', Some (Error
              ''Kafka topic is not specified, verify that your environment variables are correct''))
          else Return (Host u, tl (Path u), None))"
  by (simp add: kafkaParse_def slice_from_1_nonempty split: sum.split)

lemma kafkaParse_returns:
  "\<exists>kafkaCon kafkaTopic err. kafkaParse parse conn = Return (kafkaCon, kafkaTopic, err)"
  by (simp add: kafkaParse_cases split: sum.split)

subsection \<open>Sequences of calls\<close>

lemma all_after_split:
  "all_after p q es \<Longrightarrow> es = pre @ e # post \<Longrightarrow> q e \<Longrightarrow> \<exists>x \<in> set pre. p x"
proof (induction es arbitrary: pre)
  case Nil
  then show ?case by simp
next
  case (Cons a es)
  show ?case
  proof (cases pre)
    case Nil
    with Cons.prems show ?thesis by (auto split: if_splits)
  next
    case (Cons b pre')
    with Cons.prems Cons.IH [of pre'] show ?thesis by (auto split: if_splits)
  qed
qed

lemma all_after_log_error:
  "(\<And>e. \<not> p (LogErr msg e)) \<Longrightarrow> (\<And>e. \<not> q (LogErr msg e)) \<Longrightarrow>
     all_after p q (log_error msg err @ es) = all_after p q es"
  by (cases err) (simp_all add: log_error_def)

lemma filter_log_error:
  "(\<And>e. \<not> p (LogErr msg e)) \<Longrightarrow> filter p (log_error msg err) = []"
  by (cases err) (simp_all add: log_error_def)

lemma list_all_log_error:
  "(\<And>e. p (LogErr msg e)) \<Longrightarrow> list_all p (log_error msg err)"
  by (cases err) (simp_all add: log_error_def)

lemma none_before_split:
  "none_before p q es \<Longrightarrow> es = pre @ e # post \<Longrightarrow> q e \<Longrightarrow> \<forall>x \<in> set pre. \<not> p x"
proof (induction es arbitrary: pre)
  case Nil
  then show ?case by simp
next
  case (Cons a es)
  show ?case
  proof (cases pre)
    case Nil
    then show ?thesis by simp
  next
    case pre: (Cons b pre')
    with Cons.prems(2) have ab: "a = b" and es: "es = pre' @ e # post"
      by simp_all
    have not_p: "\<not> p a"
    proof
      assume "p a"
      with Cons.prems(1) have "list_all (\<lambda>x. \<not> q x) es" by simp
      with es have "\<not> q e" by simp
      with Cons.prems(3) show False by simp
    qed
    with Cons.prems(1) have "none_before p q es" by simp
    from Cons.IH [OF this es Cons.prems(3)] not_p ab pre show ?thesis
      by simp
  qed
qed

lemma none_before_log_error:
  "(\<And>e. \<not> p (LogErr msg e)) \<Longrightarrow>
     none_before p q (log_error msg err @ es) = none_before p q es"
  by (cases err) (simp_all add: log_error_def)

subsection \<open>createConsumer and main, case by case\<close>

lemma createConsumer_shape:
  obtains (no_client) e where "new_consumer w [kafkaCon] = Some e"
      "createConsumer w kafkaCon kafkaTopic = ([NewConfig, NewConsumer [kafkaCon]], None, Some e)"
  | (no_partition) e where "new_consumer w [kafkaCon] = None"
      "consume_partition w kafkaTopic 0 OffsetNewest = Some e"
      "createConsumer w kafkaCon kafkaTopic =
         ([NewConfig, NewConsumer [kafkaCon], ConsumePartition kafkaTopic 0 OffsetNewest],
          None, Some e)"
  | (created) "new_consumer w [kafkaCon] = None"
      "consume_partition w kafkaTopic 0 OffsetNewest = None"
      "createConsumer w kafkaCon kafkaTopic =
         ([NewConfig, NewConsumer [kafkaCon], ConsumePartition kafkaTopic 0 OffsetNewest],
          Some (PartitionConsumer kafkaTopic 0 OffsetNewest), None)"
  by (cases "new_consumer w [kafkaCon]"; cases "consume_partition w kafkaTopic 0 OffsetNewest")
     (auto simp: createConsumer_def)

lemmas main_run = main_def Let_def signal_listener_def close_services_def
  all_after_log_error filter_log_error list_all_log_error

lemmas world_defs = world_up_def world_kafka_unset_def world_cb_down_def sample_parse_def
  empty_URL_def

lemma main_closes_after_shutdown: "all_after is_shutdown is_close (fst (main w))"
proof -
  obtain kafkaCon kafkaTopic err
    where k: "kafkaParse (parse_url w) (environ w ''KAFKA_CONN'') = Return (kafkaCon, kafkaTopic, err)"
    using kafkaParse_returns by blast
  show ?thesis
    by (cases rule: createConsumer_shape [of w kafkaCon kafkaTopic];
        cases "connect_to_cb w (environ w ''COUCHBASE_CONN'')";
        cases "new_http_client w (environ w ''CONNECTOR_CONNECT_INFLUX_URL'')
           (environ w ''CONNECTOR_CONNECT_INFLUX_USERNAME'')
           (environ w ''CONNECTOR_CONNECT_INFLUX_PASSWORD'')";
        cases "interrupt w")
       (simp_all add: main_run k split: error.split)
qed

lemma main_serving_after_connect: "all_after is_connect_cb is_serving (fst (main w))"
proof -
  obtain kafkaCon kafkaTopic err
    where k: "kafkaParse (parse_url w) (environ w ''KAFKA_CONN'') = Return (kafkaCon, kafkaTopic, err)"
    using kafkaParse_returns by blast
  show ?thesis
    by (cases rule: createConsumer_shape [of w kafkaCon kafkaTopic];
        cases "connect_to_cb w (environ w ''COUCHBASE_CONN'')";
        cases "new_http_client w (environ w ''CONNECTOR_CONNECT_INFLUX_URL'')
           (environ w ''CONNECTOR_CONNECT_INFLUX_USERNAME'')
           (environ w ''CONNECTOR_CONNECT_INFLUX_PASSWORD'')";
        cases "interrupt w")
       (simp_all add: main_run k split: error.split)
qed

lemma main_connect_once:
  "filter is_connect_cb (fst (main w)) = [ConnectToCB (environ w ''COUCHBASE_CONN'')]"
proof -
  obtain kafkaCon kafkaTopic err
    where k: "kafkaParse (parse_url w) (environ w ''KAFKA_CONN'') = Return (kafkaCon, kafkaTopic, err)"
    using kafkaParse_returns by blast
  show ?thesis
    by (cases rule: createConsumer_shape [of w kafkaCon kafkaTopic];
        cases "connect_to_cb w (environ w ''COUCHBASE_CONN'')";
        cases "new_http_client w (environ w ''CONNECTOR_CONNECT_INFLUX_URL'')
           (environ w ''CONNECTOR_CONNECT_INFLUX_USERNAME'')
           (environ w ''CONNECTOR_CONNECT_INFLUX_PASSWORD'')";
        cases "interrupt w")
       (simp_all add: main_run k split: error.split)
qed

lemma main_connect_failed:
  assumes "connect_to_cb w (environ w ''COUCHBASE_CONN'') \<noteq> None"
  shows "(\<exists>e. snd (main w) = Panicked e) \<and> list_all (\<lambda>ev. \<not> is_serving ev) (fst (main w))"
proof -
  obtain kafkaCon kafkaTopic err
    where k: "kafkaParse (parse_url w) (environ w ''KAFKA_CONN'') = Return (kafkaCon, kafkaTopic, err)"
    using kafkaParse_returns by blast
  from assms obtain m where "connect_to_cb w (environ w ''COUCHBASE_CONN'') = Some (Error m)"
    by (cases "connect_to_cb w (environ w ''COUCHBASE_CONN'')") (auto intro: error.exhaust)
  then show ?thesis
    by (simp add: main_run k)
qed

lemma main_policy:
  "filter is_new_connection_manager (fst (main w)) =
     (if connect_to_cb w (environ w ''COUCHBASE_CONN'') = None \<and>
         new_http_client w (environ w ''CONNECTOR_CONNECT_INFLUX_URL'')
           (environ w ''CONNECTOR_CONNECT_INFLUX_USERNAME'')
           (environ w ''CONNECTOR_CONNECT_INFLUX_PASSWORD'') = None
      then [NewConnectionManager 100 1 2000 1 (Couchbase (environ w ''COUCHBASE_CONN''))]
      else [])"
proof -
  obtain kafkaCon kafkaTopic err
    where k: "kafkaParse (parse_url w) (environ w ''KAFKA_CONN'') = Return (kafkaCon, kafkaTopic, err)"
    using kafkaParse_returns by blast
  show ?thesis
    by (cases rule: createConsumer_shape [of w kafkaCon kafkaTopic];
        cases "connect_to_cb w (environ w ''COUCHBASE_CONN'')";
        cases "new_http_client w (environ w ''CONNECTOR_CONNECT_INFLUX_URL'')
           (environ w ''CONNECTOR_CONNECT_INFLUX_USERNAME'')
           (environ w ''CONNECTOR_CONNECT_INFLUX_PASSWORD'')";
        cases "interrupt w")
       (simp_all add: main_run k split: error.split)
qed

lemma main_serving:
  "filter is_serving (fst (main w)) \<noteq> [] \<longleftrightarrow>
     connect_to_cb w (environ w ''COUCHBASE_CONN'') = None \<and>
         new_http_client w (environ w ''CONNECTOR_CONNECT_INFLUX_URL'')
           (environ w ''CONNECTOR_CONNECT_INFLUX_USERNAME'')
           (environ w ''CONNECTOR_CONNECT_INFLUX_PASSWORD'') = None"
proof -
  obtain kafkaCon kafkaTopic err
    where k: "kafkaParse (parse_url w) (environ w ''KAFKA_CONN'') = Return (kafkaCon, kafkaTopic, err)"
    using kafkaParse_returns by blast
  show ?thesis
    by (cases rule: createConsumer_shape [of w kafkaCon kafkaTopic];
        cases "connect_to_cb w (environ w ''COUCHBASE_CONN'')";
        cases "new_http_client w (environ w ''CONNECTOR_CONNECT_INFLUX_URL'')
           (environ w ''CONNECTOR_CONNECT_INFLUX_USERNAME'')
           (environ w ''CONNECTOR_CONNECT_INFLUX_PASSWORD'')";
        cases "interrupt w")
       (simp_all add: main_run k split: error.split)
qed

lemma main_consume_partition:
  "filter is_consume_partition (fst (main w)) = [] \<or>
   (\<exists>kafkaCon kafkaTopic err.
      kafkaParse (parse_url w) (environ w ''KAFKA_CONN'') = Return (kafkaCon, kafkaTopic, err) \<and>
      filter is_consume_partition (fst (main w)) = [ConsumePartition kafkaTopic 0 OffsetNewest])"
proof -
  obtain kafkaCon kafkaTopic err
    where k: "kafkaParse (parse_url w) (environ w ''KAFKA_CONN'') = Return (kafkaCon, kafkaTopic, err)"
    using kafkaParse_returns by blast
  show ?thesis
    by (cases rule: createConsumer_shape [of w kafkaCon kafkaTopic];
        cases "connect_to_cb w (environ w ''COUCHBASE_CONN'')";
        cases "new_http_client w (environ w ''CONNECTOR_CONNECT_INFLUX_URL'')
           (environ w ''CONNECTOR_CONNECT_INFLUX_USERNAME'')
           (environ w ''CONNECTOR_CONNECT_INFLUX_PASSWORD'')";
        cases "interrupt w")
       (simp_all add: main_run k split: error.split)
qed

lemma main_shutdown:
  "filter is_shutdown (fst (main w)) = [] \<or>
   filter is_shutdown (fst (main w)) = [Shutdown (shutdown w)]"
proof -
  obtain kafkaCon kafkaTopic err
    where k: "kafkaParse (parse_url w) (environ w ''KAFKA_CONN'') = Return (kafkaCon, kafkaTopic, err)"
    using kafkaParse_returns by blast
  show ?thesis
    by (cases rule: createConsumer_shape [of w kafkaCon kafkaTopic];
        cases "connect_to_cb w (environ w ''COUCHBASE_CONN'')";
        cases "new_http_client w (environ w ''CONNECTOR_CONNECT_INFLUX_URL'')
           (environ w ''CONNECTOR_CONNECT_INFLUX_USERNAME'')
           (environ w ''CONNECTOR_CONNECT_INFLUX_PASSWORD'')";
        cases "interrupt w")
       (simp_all add: main_run k split: error.split)
qed

lemma main_timeout_before_shutdown: "all_after is_with_timeout is_shutdown (fst (main w))"
proof -
  obtain kafkaCon kafkaTopic err
    where k: "kafkaParse (parse_url w) (environ w ''KAFKA_CONN'') = Return (kafkaCon, kafkaTopic, err)"
    using kafkaParse_returns by blast
  show ?thesis
    by (cases rule: createConsumer_shape [of w kafkaCon kafkaTopic];
        cases "connect_to_cb w (environ w ''COUCHBASE_CONN'')";
        cases "new_http_client w (environ w ''CONNECTOR_CONNECT_INFLUX_URL'')
           (environ w ''CONNECTOR_CONNECT_INFLUX_USERNAME'')
           (environ w ''CONNECTOR_CONNECT_INFLUX_PASSWORD'')";
        cases "interrupt w")
       (simp_all add: main_run k split: error.split)
qed

lemma main_with_timeout:
  "filter is_with_timeout (fst (main w)) = [] \<or>
   filter is_with_timeout (fst (main w)) = [WithTimeout (5 * Second)]"
proof -
  obtain kafkaCon kafkaTopic err
    where k: "kafkaParse (parse_url w) (environ w ''KAFKA_CONN'') = Return (kafkaCon, kafkaTopic, err)"
    using kafkaParse_returns by blast
  show ?thesis
    by (cases rule: createConsumer_shape [of w kafkaCon kafkaTopic];
        cases "connect_to_cb w (environ w ''COUCHBASE_CONN'')";
        cases "new_http_client w (environ w ''CONNECTOR_CONNECT_INFLUX_URL'')
           (environ w ''CONNECTOR_CONNECT_INFLUX_USERNAME'')
           (environ w ''CONNECTOR_CONNECT_INFLUX_PASSWORD'')";
        cases "interrupt w")
       (simp_all add: main_run k split: error.split)
qed

lemma main_no_close_after_svr_cancel: "none_before is_svr_cancel is_close (fst (main w))"
proof -
  obtain kafkaCon kafkaTopic err
    where k: "kafkaParse (parse_url w) (environ w ''KAFKA_CONN'') = Return (kafkaCon, kafkaTopic, err)"
    using kafkaParse_returns by blast
  show ?thesis
    by (cases rule: createConsumer_shape [of w kafkaCon kafkaTopic];
        cases "connect_to_cb w (environ w ''COUCHBASE_CONN'')";
        cases "new_http_client w (environ w ''CONNECTOR_CONNECT_INFLUX_URL'')
           (environ w ''CONNECTOR_CONNECT_INFLUX_USERNAME'')
           (environ w ''CONNECTOR_CONNECT_INFLUX_PASSWORD'')";
        cases "interrupt w")
       (simp_all add: main_run none_before_log_error k split: error.split)
qed

lemma is_svr_cancel_iff: "is_svr_cancel x \<longleftrightarrow> x = SvrCancel"
  by (cases x) simp_all

text \<open>The run in which everything is up and a SIGTERM ends it.\<close>

lemma main_world_up:
  "main world_up =
     ([ConnectToCB ''couchbase://localhost/doppler'',
       Log ''Connected to Couchbase'',
       NewConfig,
       NewConsumer [''localhost:9092''],
       ConsumePartition ''influx-topic'' 0 OffsetNewest,
       Log ''Connected to Kafka'',
       NewHTTPClient ''http://localhost:8086'' '''' '''',
       Log ''Connected to InfluxDB'',
       Notify [Interrupt, SIGTERM],
       WithCancel,
       Go SignalListener,
       NewConnectionManager 100 1 2000 1 (Couchbase ''couchbase://localhost/doppler''),
       Log ''Websockets Available'',
       NewInfluxService 1,
       Log ''InfluxDB Available'',
       Handle ''/receive/ws'' ConnectionManager,
       Handle ''/receive/ajax'' InfluxService,
       Go (Consume (Some (PartitionConsumer ''influx-topic'' 0 OffsetNewest))),
       Log ''Consuming Started'',
       Go (ListenAndServe '':8000''),
       Done,
       WithTimeout 5000000000,
       Shutdown None,
       Log ''Server Shutdown'',
       BucketClose,
       ConsumerClose (PartitionConsumer ''influx-topic'' 0 OffsetNewest),
       ClientClose,
       Log ''Internal Services Closed'',
       SvrCancel,
       Log ''Service Closed''],
      Returned)"
  by (simp add: main_def createConsumer_def close_services_def signal_listener_def log_error_def
        kafkaParse_cases Let_def world_defs addr_def Second_def)

section \<open>The claims\<close>

subsection \<open>Start-up\<close>

text \<open>
  Claim C1 says that an unresolvable log-source descriptor, or a failure to create the
  connection to the log source, aborts the process before it registers handlers, starts
  consuming or listens. The code logs both errors and goes on, unlike the Couchbase and
  Influx failures next to them, which panic. With \<open>KAFKA_CONN\<close> unset, \<open>kafkaParse\<close>
  reports the missing address, \<open>createConsumer\<close> is called with empty address and topic
  and fails, and \<open>main\<close> still registers both handlers, starts \<open>Consume\<close> on a nil
  consumer and starts the HTTP server.
\<close>

theorem kafka_unresolved_still_serves:
  "kafkaParse (parse_url world_kafka_unset) (environ world_kafka_unset ''KAFKA_CONN'') =
     Return ('''', '''', Some (Error
       ''Kafka address is not specified, verify that your environment variables are correct''))
   \<and> createConsumer world_kafka_unset '''' '''' =
       ([NewConfig, NewConsumer ['''']], None,
        Some (Error ''kafka: client has run out of available brokers''))
   \<and> main world_kafka_unset =
     ([LogErr ''kafka parse error: '' (Error
         ''Kafka address is not specified, verify that your environment variables are correct''),
       ConnectToCB ''couchbase://localhost/doppler'',
       Log ''Connected to Couchbase'',
       NewConfig,
       NewConsumer [''''],
       LogErr '''' (Error ''kafka: client has run out of available brokers''),
       Log ''Connected to Kafka'',
       NewHTTPClient ''http://localhost:8086'' '''' '''',
       Log ''Connected to InfluxDB'',
       Notify [Interrupt, SIGTERM],
       WithCancel,
       Go SignalListener,
       NewConnectionManager 100 1 2000 1 (Couchbase ''couchbase://localhost/doppler''),
       Log ''Websockets Available'',
       NewInfluxService 1,
       Log ''InfluxDB Available'',
       Handle ''/receive/ws'' ConnectionManager,
       Handle ''/receive/ajax'' InfluxService,
       Go (Consume None),
       Log ''Consuming Started'',
       Go (ListenAndServe '':8000'')],
      Blocked)"
  by (simp add: main_def createConsumer_def close_services_def signal_listener_def log_error_def
        kafkaParse_cases Let_def world_defs addr_def)

text \<open>
  Claim C2: the batching policy handed to the connection manager is fixed at start-up and
  is maxBatchSize 100, minBatchSize 1, batchInterval 2000, truncateSize 1. In every run,
  every construction of the connection manager gets exactly these values, there is at
  most one construction, and no handler is registered, no consumer started and no server
  started without it.
\<close>

theorem batching_policy_fixed:
  "(\<forall>a b c d cb. NewConnectionManager a b c d cb \<in> set (fst (main w))
       \<longrightarrow> a = 100 \<and> b = 1 \<and> c = 2000 \<and> d = 1)
   \<and> length (filter is_new_connection_manager (fst (main w))) \<le> 1
   \<and> ((\<exists>ev \<in> set (fst (main w)). is_serving ev)
       \<longrightarrow> NewConnectionManager 100 1 2000 1 (Couchbase (environ w ''COUCHBASE_CONN''))
             \<in> set (fst (main w)))"
proof (intro conjI allI impI)
  fix a b c d cb
  assume "NewConnectionManager a b c d cb \<in> set (fst (main w))"
  then have mem: "NewConnectionManager a b c d cb
      \<in> set (filter is_new_connection_manager (fst (main w)))"
    by simp
  have "filter is_new_connection_manager (fst (main w)) \<noteq> []"
  proof
    assume none: "filter is_new_connection_manager (fst (main w)) = []"
    from mem show False unfolding none by simp
  qed
  then have one: "filter is_new_connection_manager (fst (main w)) =
      [NewConnectionManager 100 1 2000 1 (Couchbase (environ w ''COUCHBASE_CONN''))]"
    by (simp add: main_policy split: if_splits)
  from mem show "a = 100" "b = 1" "c = 2000" "d = 1"
    unfolding one by simp_all
next
  show "length (filter is_new_connection_manager (fst (main w))) \<le> 1"
    by (simp add: main_policy)
next
  assume "\<exists>ev \<in> set (fst (main w)). is_serving ev"
  then have "filter is_serving (fst (main w)) \<noteq> []"
    by (simp add: filter_empty_conv)
  then have "filter is_new_connection_manager (fst (main w)) =
      [NewConnectionManager 100 1 2000 1 (Couchbase (environ w ''COUCHBASE_CONN''))]"
    by (simp add: main_policy main_serving)
  then have "NewConnectionManager 100 1 2000 1 (Couchbase (environ w ''COUCHBASE_CONN''))
      \<in> set (filter is_new_connection_manager (fst (main w)))"
    by simp
  then show "NewConnectionManager 100 1 2000 1 (Couchbase (environ w ''COUCHBASE_CONN''))
      \<in> set (fst (main w))"
    by simp
qed

theorem batching_policy_fixed_witness:
  "Handle ''/receive/ws'' ConnectionManager \<in> set (fst (main world_up))
   \<and> is_serving (Handle ''/receive/ws'' ConnectionManager)
   \<and> NewConnectionManager 100 1 2000 1 (Couchbase ''couchbase://localhost/doppler'')
       \<in> set (fst (main world_up))"
proof -
  have served: "Handle ''/receive/ws'' ConnectionManager \<in> set (fst (main world_up))"
    by (simp add: main_world_up)
  have serving: "is_serving (Handle ''/receive/ws'' ConnectionManager)"
    by simp
  have cb: "environ world_up ''COUCHBASE_CONN'' = ''couchbase://localhost/doppler''"
    by (simp add: world_up_def)
  from served serving have "\<exists>ev \<in> set (fst (main world_up)). is_serving ev"
    by blast
  with batching_policy_fixed [of world_up]
  have "NewConnectionManager 100 1 2000 1 (Couchbase (environ world_up ''COUCHBASE_CONN''))
      \<in> set (fst (main world_up))"
    by blast
  with served serving show ?thesis
    unfolding cb by blast
qed

text \<open>
  Claim C6: a failed connection to Couchbase is fatal, before any endpoint is served or
  consuming starts, and the connection is made exactly once, at start-up. Every run
  calls \<open>ConnectToCB\<close> exactly once, with the value of \<open>COUCHBASE_CONN\<close>; the call
  comes before every handler registration, the start of the consumer and the start of
  the server; and when it fails the run ends in a panic with none of these made.
\<close>

theorem couchbase_failure_is_fatal:
  "filter is_connect_cb (fst (main w)) = [ConnectToCB (environ w ''COUCHBASE_CONN'')]
   \<and> (\<forall>pre ev post. fst (main w) = pre @ ev # post \<and> is_serving ev
         \<longrightarrow> ConnectToCB (environ w ''COUCHBASE_CONN'') \<in> set pre)
   \<and> (connect_to_cb w (environ w ''COUCHBASE_CONN'') \<noteq> None
         \<longrightarrow> (\<exists>e. snd (main w) = Panicked e) \<and> (\<forall>ev \<in> set (fst (main w)). \<not> is_serving ev))"
proof (intro conjI allI impI)
  show once: "filter is_connect_cb (fst (main w)) = [ConnectToCB (environ w ''COUCHBASE_CONN'')]"
    by (rule main_connect_once)
  show "ConnectToCB (environ w ''COUCHBASE_CONN'') \<in> set pre"
    if "fst (main w) = pre @ ev # post \<and> is_serving ev" for pre ev post
  proof -
    from that all_after_split [OF main_serving_after_connect, of w pre ev post]
    obtain x where x: "x \<in> set pre" "is_connect_cb x" by blast
    with that have "x \<in> set (filter is_connect_cb (fst (main w)))" by simp
    then have "x = ConnectToCB (environ w ''COUCHBASE_CONN'')" unfolding once by simp
    with x show ?thesis by simp
  qed
  show "\<exists>e. snd (main w) = Panicked e"
    if "connect_to_cb w (environ w ''COUCHBASE_CONN'') \<noteq> None"
    using main_connect_failed [OF that] by simp
  show "\<forall>ev \<in> set (fst (main w)). \<not> is_serving ev"
    if "connect_to_cb w (environ w ''COUCHBASE_CONN'') \<noteq> None"
    using main_connect_failed [OF that] by (simp add: list_all_iff)
qed

theorem couchbase_failure_is_fatal_witness:
  "connect_to_cb world_cb_down (environ world_cb_down ''COUCHBASE_CONN'') = Some (Error ''timeout'')
   \<and> (\<exists>e. snd (main world_cb_down) = Panicked e)
   \<and> filter is_serving (fst (main world_cb_down)) = []
   \<and> filter is_connect_cb (fst (main world_cb_down)) =
       [ConnectToCB ''couchbase://localhost/doppler'']"
proof -
  have down: "connect_to_cb world_cb_down (environ world_cb_down ''COUCHBASE_CONN'') =
      Some (Error ''timeout'')"
    by (simp add: world_cb_down_def)
  have "environ world_cb_down ''COUCHBASE_CONN'' = ''couchbase://localhost/doppler''"
    by (simp add: world_cb_down_def world_up_def)
  with down couchbase_failure_is_fatal [of world_cb_down] show ?thesis
    by (simp add: filter_empty_conv)
qed

subsection \<open>The consumer\<close>

text \<open>
  Claim C3: \<open>createConsumer\<close> creates exactly one partition consumer, on partition 0 of
  the topic from the connection descriptor, at \<open>sarama.OffsetNewest\<close>. The function
  calls \<open>ConsumePartition\<close> once when the client could be created and not at all
  otherwise, always with its topic argument, partition 0 and \<open>OffsetNewest\<close>; when it
  returns a nil error it returns the consumer of that one call. In \<open>main\<close> the topic of
  any such call is the topic \<open>kafkaParse\<close> returned for \<open>KAFKA_CONN\<close>, and there is
  at most one such call in a run.
\<close>

theorem createConsumer_newest_partition_zero:
  "filter is_consume_partition (fst (createConsumer w kafkaCon kafkaTopic)) =
     (if new_consumer w [kafkaCon] = None then [ConsumePartition kafkaTopic 0 OffsetNewest]
      else [])
   \<and> (snd (snd (createConsumer w kafkaCon kafkaTopic)) = None \<longrightarrow>
        fst (snd (createConsumer w kafkaCon kafkaTopic)) =
          Some (PartitionConsumer kafkaTopic 0 OffsetNewest)
        \<and> filter is_consume_partition (fst (createConsumer w kafkaCon kafkaTopic)) =
          [ConsumePartition kafkaTopic 0 OffsetNewest])
   \<and> (\<forall>t p off. ConsumePartition t p off \<in> set (fst (main w)) \<longrightarrow>
        p = 0 \<and> off = OffsetNewest
        \<and> (\<exists>a e. kafkaParse (parse_url w) (environ w ''KAFKA_CONN'') = Return (a, t, e)))
   \<and> length (filter is_consume_partition (fst (main w))) \<le> 1"
proof (intro conjI allI impI)
  show "filter is_consume_partition (fst (createConsumer w kafkaCon kafkaTopic)) =
     (if new_consumer w [kafkaCon] = None then [ConsumePartition kafkaTopic 0 OffsetNewest]
      else [])"
    by (cases rule: createConsumer_shape [of w kafkaCon kafkaTopic]) simp_all
  assume "snd (snd (createConsumer w kafkaCon kafkaTopic)) = None"
  then show "fst (snd (createConsumer w kafkaCon kafkaTopic)) =
          Some (PartitionConsumer kafkaTopic 0 OffsetNewest)"
      and "filter is_consume_partition (fst (createConsumer w kafkaCon kafkaTopic)) =
          [ConsumePartition kafkaTopic 0 OffsetNewest]"
    by (cases rule: createConsumer_shape [of w kafkaCon kafkaTopic]; simp)+
next
  fix t p off
  assume "ConsumePartition t p off \<in> set (fst (main w))"
  then have mem: "ConsumePartition t p off \<in> set (filter is_consume_partition (fst (main w)))"
    by simp
  have "filter is_consume_partition (fst (main w)) \<noteq> []"
  proof
    assume none: "filter is_consume_partition (fst (main w)) = []"
    from mem show False unfolding none by simp
  qed
  with main_consume_partition [of w] obtain kafkaCon' kafkaTopic' err
    where k: "kafkaParse (parse_url w) (environ w ''KAFKA_CONN'') =
        Return (kafkaCon', kafkaTopic', err)"
      and one: "filter is_consume_partition (fst (main w)) =
        [ConsumePartition kafkaTopic' 0 OffsetNewest]"
    by blast
  from mem have same: "ConsumePartition t p off = ConsumePartition kafkaTopic' 0 OffsetNewest"
    unfolding one by simp
  from same show "p = 0" "off = OffsetNewest" by simp_all
  from same k show "\<exists>a e. kafkaParse (parse_url w) (environ w ''KAFKA_CONN'') = Return (a, t, e)"
    by simp
next
  from main_consume_partition [of w]
  show "length (filter is_consume_partition (fst (main w))) \<le> 1"
    by auto
qed

theorem createConsumer_newest_partition_zero_witness:
  "snd (snd (createConsumer world_up ''localhost:9092'' ''influx-topic'')) = None
   \<and> fst (snd (createConsumer world_up ''localhost:9092'' ''influx-topic'')) =
       Some (PartitionConsumer ''influx-topic'' 0 OffsetNewest)
   \<and> ConsumePartition ''influx-topic'' 0 OffsetNewest \<in> set (fst (main world_up))
   \<and> kafkaParse (parse_url world_up) (environ world_up ''KAFKA_CONN'') =
       Return (''localhost:9092'', ''influx-topic'', None)"
proof -
  have nil: "snd (snd (createConsumer world_up ''localhost:9092'' ''influx-topic'')) = None"
    by (simp add: createConsumer_def world_up_def)
  have called: "ConsumePartition ''influx-topic'' 0 OffsetNewest \<in> set (fst (main world_up))"
    by (simp add: main_world_up)
  have parsed: "kafkaParse (parse_url world_up) (environ world_up ''KAFKA_CONN'') =
       Return (''localhost:9092'', ''influx-topic'', None)"
    by (simp add: kafkaParse_cases world_defs)
  from nil called parsed
    createConsumer_newest_partition_zero [of world_up "''localhost:9092''" "''influx-topic''"]
  show ?thesis by blast
qed

subsection \<open>The connection descriptor\<close>

text \<open>
  Claim C4: for every input that parses as a URL with a non-empty host and a path that
  is neither empty nor a single slash, \<open>kafkaParse\<close> returns the host as the address,
  the path without its first character as the topic, and a nil error.
\<close>

theorem kafkaParse_address_and_topic:
  assumes "parse conn = Inr u" and "Host u \<noteq> ''''" and "Path u \<noteq> ''''" and "Path u \<noteq> ''/''"
  shows "kafkaParse parse conn = Return (Host u, drop 1 (Path u), None)"
  using assms by (simp add: kafkaParse_cases drop_Suc)

theorem kafkaParse_address_and_topic_witness:
  "kafkaParse sample_parse ''kafka://localhost:9092/influx-topic''
     = Return (''localhost:9092'', ''influx-topic'', None)"
  using kafkaParse_address_and_topic [of sample_parse "''kafka://localhost:9092/influx-topic''"
      "empty_URL\<lparr>Scheme := ''kafka'', Host := ''localhost:9092'', Path := ''/influx-topic''\<rparr>"]
  by (simp add: sample_parse_def empty_URL_def)

text \<open>
  Claim C5: \<open>kafkaParse\<close> returns a non-nil error exactly when the input fails to parse,
  or the parsed host is empty, or the parsed path is empty or a single slash; and with
  every error the returned address and topic are both the empty string.
\<close>

theorem kafkaParse_error_iff:
  "\<exists>address topic err.
     kafkaParse parse conn = Return (address, topic, err)
     \<and> (err \<noteq> None \<longleftrightarrow>
            (\<exists>e. parse conn = Inl e) \<or>
            (\<exists>u. parse conn = Inr u \<and> (Host u = '''' \<or> Path u = '''' \<or> Path u = ''/'')))
     \<and> (err \<noteq> None \<longrightarrow> address = '''' \<and> topic = '''')"
  by (auto simp: kafkaParse_cases split: sum.splits if_splits)

theorem kafkaParse_error_iff_witness:
  "kafkaParse sample_parse ''kafka://localhost:9092/'' =
     Return ('''', '''', Some (Error
       ''Kafka topic is not specified, verify that your environment variables are correct''))
   \<and> (\<exists>u. sample_parse ''kafka://localhost:9092/'' = Inr u
          \<and> (Host u = '''' \<or> Path u = '''' \<or> Path u = ''/''))"
proof -
  have run: "kafkaParse sample_parse ''kafka://localhost:9092/'' =
     Return ('''', '''', Some (Error
       ''Kafka topic is not specified, verify that your environment variables are correct''))"
    by (simp add: kafkaParse_cases sample_parse_def empty_URL_def)
  from kafkaParse_error_iff [of sample_parse "''kafka://localhost:9092/''"]
  obtain address topic err where
    r: "kafkaParse sample_parse ''kafka://localhost:9092/'' = Return (address, topic, err)"
    and iff: "err \<noteq> None \<longleftrightarrow>
            (\<exists>e. sample_parse ''kafka://localhost:9092/'' = Inl e) \<or>
            (\<exists>u. sample_parse ''kafka://localhost:9092/'' = Inr u
               \<and> (Host u = '''' \<or> Path u = '''' \<or> Path u = ''/''))"
    by blast
  from r have "err \<noteq> None" unfolding run by auto
  with iff have "\<exists>u. sample_parse ''kafka://localhost:9092/'' = Inr u
               \<and> (Host u = '''' \<or> Path u = '''' \<or> Path u = ''/'')"
    by (auto simp: sample_parse_def)
  with run show ?thesis by blast
qed

text \<open>
  Claim C8: whenever \<open>kafkaParse\<close> returns a nil error, the address and the topic it
  returns are both non-empty. The address is the host, which was checked. For the topic
  the check on the path rules out the empty path and the single slash, which are the
  only paths with an empty tail among those net/url produces beside a host: such a path
  is empty or starts with a slash.
\<close>

theorem kafkaParse_nonempty:
  assumes "kafkaParse parse conn = Return (address, topic, None)"
    and "\<And>u. parse conn = Inr u \<Longrightarrow> rooted u"
  shows "address \<noteq> '''' \<and> topic \<noteq> ''''"
proof -
  from assms(1) obtain u where u: "parse conn = Inr u" "Host u \<noteq> ''''" "Path u \<noteq> ''''"
      "Path u \<noteq> ''/''" "address = Host u" "topic = tl (Path u)"
    by (auto simp: kafkaParse_cases split: sum.splits if_splits)
  from assms(2) [OF u(1)] u(2,3,4) have "tl (Path u) \<noteq> []"
    by (cases "Path u") (auto simp: rooted_def)
  with u show ?thesis by simp
qed

theorem kafkaParse_nonempty_witness:
  "kafkaParse sample_parse ''kafka://localhost:9092/influx-topic'' =
     Return (''localhost:9092'', ''influx-topic'', None)
   \<and> sample_parse ''kafka://localhost:9092/influx-topic'' =
     Inr (empty_URL\<lparr>Scheme := ''kafka'', Host := ''localhost:9092'', Path := ''/influx-topic''\<rparr>)
   \<and> rooted (empty_URL\<lparr>Scheme := ''kafka'', Host := ''localhost:9092'',
        Path := ''/influx-topic''\<rparr>)
   \<and> length ''localhost:9092'' = 14 \<and> length ''influx-topic'' = 12"
proof -
  have run: "kafkaParse sample_parse ''kafka://localhost:9092/influx-topic'' =
     Return (''localhost:9092'', ''influx-topic'', None)"
    by (simp add: kafkaParse_cases sample_parse_def empty_URL_def)
  have parsed: "sample_parse ''kafka://localhost:9092/influx-topic'' =
     Inr (empty_URL\<lparr>Scheme := ''kafka'', Host := ''localhost:9092'', Path := ''/influx-topic''\<rparr>)"
    by (simp add: sample_parse_def)
  have shape: "rooted (empty_URL\<lparr>Scheme := ''kafka'', Host := ''localhost:9092'',
        Path := ''/influx-topic''\<rparr>)"
    by (simp add: rooted_def)
  have "rooted u" if "sample_parse ''kafka://localhost:9092/influx-topic'' = Inr u" for u
    using that parsed shape by simp
  from kafkaParse_nonempty [OF run this] run parsed shape show ?thesis
    by simp
qed

text \<open>
  Claim C9: \<open>kafkaParse\<close> is total. The slice \<open>u.Path[1:]\<close> is reached only with a path
  that is not empty, so it never goes out of range: whatever the parser answers, the
  function returns a triple and does not panic.
\<close>

theorem kafkaParse_total:
  "kafkaParse parse conn \<noteq> Panic \<and>
   (\<exists>address topic err. kafkaParse parse conn = Return (address, topic, err))"
  by (simp add: kafkaParse_cases split: sum.split)

subsection \<open>Shutdown\<close>

text \<open>
  Claim C7: an interrupt or SIGTERM cancels the context and starts a shutdown of the
  HTTP server bounded by five seconds; an error from it is logged, and the remaining
  resources are then released. The signal listener cancels, and \<open>main\<close> asks for a
  timeout of \<open>5 * Second\<close>, calls \<open>Shutdown\<close> and logs its error, as the theorem on
  the order of the closing calls below records for every run. The release is where the
  code falls short: when no partition consumer was created, which \<open>main\<close> only logs at
  start-up, the deferred function closes the bucket, panics on \<open>consumer.Close()\<close> and
  never closes the Influx client nor cancels the server context.
\<close>

theorem nil_consumer_stops_release:
  "signal_listener world_kafka_unset_sigterm =
     ([Receive SIGTERM, Log ''Interrupt Received'', Cancel], Returned)
   \<and> main world_kafka_unset_sigterm =
     ([LogErr ''kafka parse error: '' (Error
         ''Kafka address is not specified, verify that your environment variables are correct''),
       ConnectToCB ''couchbase://localhost/doppler'',
       Log ''Connected to Couchbase'',
       NewConfig,
       NewConsumer [''''],
       LogErr '''' (Error ''kafka: client has run out of available brokers''),
       Log ''Connected to Kafka'',
       NewHTTPClient ''http://localhost:8086'' '''' '''',
       Log ''Connected to InfluxDB'',
       Notify [Interrupt, SIGTERM],
       WithCancel,
       Go SignalListener,
       NewConnectionManager 100 1 2000 1 (Couchbase ''couchbase://localhost/doppler''),
       Log ''Websockets Available'',
       NewInfluxService 1,
       Log ''InfluxDB Available'',
       Handle ''/receive/ws'' ConnectionManager,
       Handle ''/receive/ajax'' InfluxService,
       Go (Consume None),
       Log ''Consuming Started'',
       Go (ListenAndServe '':8000''),
       Done,
       WithTimeout 5000000000,
       Shutdown None,
       Log ''Server Shutdown'',
       BucketClose],
      Panicked (Error ''invalid memory address or nil pointer dereference''))"
  by (simp add: main_def createConsumer_def close_services_def signal_listener_def log_error_def
        kafkaParse_cases Let_def world_defs addr_def Second_def world_kafka_unset_sigterm_def)

text \<open>
  Claim C10: during shutdown the HTTP server's \<open>Shutdown\<close> has returned, having
  completed or timed out, before the Couchbase bucket, the Kafka partition consumer and
  the Influx client are closed. In every run, each of these three closing calls comes
  after the context with the timeout of \<open>5 * Second\<close> was created and after
  \<open>Shutdown\<close>, called later than that, has returned, whatever it returned: nil when
  the server finished in time, an error when the context ran out first. That context is
  not cancelled before any of the closing calls.
\<close>

theorem closes_follow_shutdown:
  assumes "fst (main w) = pre @ ev # post" and "is_close ev"
  shows "(\<exists>a b c. pre = a @ WithTimeout (5 * Second) # b @ Shutdown (shutdown w) # c)
         \<and> SvrCancel \<notin> set pre"
proof
  from all_after_split [OF main_closes_after_shutdown assms]
  obtain x where x: "x \<in> set pre" "is_shutdown x" by blast
  with assms(1) have mem: "x \<in> set (filter is_shutdown (fst (main w)))"
    by simp
  have "filter is_shutdown (fst (main w)) \<noteq> []"
  proof
    assume none: "filter is_shutdown (fst (main w)) = []"
    from mem show False unfolding none by simp
  qed
  with main_shutdown [of w] have one: "filter is_shutdown (fst (main w)) = [Shutdown (shutdown w)]"
    by blast
  from mem have "x = Shutdown (shutdown w)"
    unfolding one by simp
  with x(1) obtain p1 c where pre: "pre = p1 @ Shutdown (shutdown w) # c"
    by (auto dest: split_list)
  with assms(1) have whole: "fst (main w) = p1 @ Shutdown (shutdown w) # (c @ ev # post)"
    by simp
  have "is_shutdown (Shutdown (shutdown w))" by simp
  from all_after_split [OF main_timeout_before_shutdown whole this]
  obtain y where y: "y \<in> set p1" "is_with_timeout y" by blast
  with whole have memy: "y \<in> set (filter is_with_timeout (fst (main w)))"
    by simp
  have "filter is_with_timeout (fst (main w)) \<noteq> []"
  proof
    assume none: "filter is_with_timeout (fst (main w)) = []"
    from memy show False unfolding none by simp
  qed
  with main_with_timeout [of w]
  have oney: "filter is_with_timeout (fst (main w)) = [WithTimeout (5 * Second)]"
    by blast
  from memy have "y = WithTimeout (5 * Second)"
    unfolding oney by simp
  with y(1) obtain a b where "p1 = a @ WithTimeout (5 * Second) # b"
    by (auto dest: split_list)
  with pre have "pre = a @ WithTimeout (5 * Second) # b @ Shutdown (shutdown w) # c"
    by simp
  then show "\<exists>a b c. pre = a @ WithTimeout (5 * Second) # b @ Shutdown (shutdown w) # c"
    by blast
next
  from none_before_split [OF main_no_close_after_svr_cancel assms]
  show "SvrCancel \<notin> set pre"
    by (auto simp: is_svr_cancel_iff)
qed

theorem closes_follow_shutdown_witness:
  "fst (main world_up) =
     take 26 (fst (main world_up)) @ ClientClose # drop 27 (fst (main world_up))
   \<and> is_close ClientClose
   \<and> take 26 (fst (main world_up)) =
       take 21 (fst (main world_up)) @ WithTimeout (5 * Second) # []
         @ Shutdown (shutdown world_up) # drop 23 (take 26 (fst (main world_up)))
   \<and> filter is_svr_cancel (take 26 (fst (main world_up))) = []"
proof -
  have split: "fst (main world_up) =
      take 26 (fst (main world_up)) @ ClientClose # drop 27 (fst (main world_up))"
    by (simp add: main_world_up)
  have closing: "is_close ClientClose"
    by simp
  have quiet: "shutdown world_up = None"
    by (simp add: world_up_def)
  have shape: "take 26 (fst (main world_up)) =
       take 21 (fst (main world_up)) @ WithTimeout (5 * Second) # []
         @ Shutdown (shutdown world_up) # drop 23 (take 26 (fst (main world_up)))"
    by (simp add: main_world_up Second_def quiet)
  from closes_follow_shutdown [OF split closing]
  have "SvrCancel \<notin> set (take 26 (fst (main world_up)))"
    by blast
  then have "filter is_svr_cancel (take 26 (fst (main world_up))) = []"
    by (auto simp: filter_empty_conv is_svr_cancel_iff)
  with split closing shape show ?thesis
    by blast
qed

end
